theory Spec2Isabelle
  imports Main "HOL-Library.AList" "HOL-Library.Char_ord" "HOL-Library.List_Lexorder"
begin

section \<open>Deta Base client (base.go): data model\<close>

text \<open>
  The Go file \<^verbatim>\<open>base.go\<close> normalises caller values into items, encodes update
  operations, and drives put and query requests through a transport it does not own.
  The embedding keeps the Go shapes:
  \<^item> a JSON text is the tree it denotes (\<open>jvalue\<close>); an object keeps its members in
    order, duplicates included; a number is an integer literal (the functions below only
    move numbers around);
  \<^item> a Go map \<^verbatim>\<open>map[string]T\<close> is an association list with the nil map apart
    (\<open>None\<close>); a Go slice is a list with the nil slice apart (\<open>None\<close>);
  \<^item> a Go function returning \<^verbatim>\<open>(T, error)\<close> returns a pair whose second component is
    \<open>None\<close> for a nil error;
  \<^item> a run-time panic is a value (\<open>Panic\<close>).
\<close>

datatype jvalue =
    JNull
  | JBool bool
  | JNumber int
  | JString string
  | JArray "jvalue list"
  | JObject "(string \<times> jvalue) list"

type_synonym 'v gomap = "(string \<times> 'v) list option"
type_synonym 'a slice = "'a list option"

text \<open>\<^verbatim>\<open>v, ok := m[k]\<close>: a nil map has no entries.\<close>

definition map_index :: "'v gomap \<Rightarrow> string \<Rightarrow> 'v option" where
  "map_index m k = (case m of None \<Rightarrow> None | Some kvs \<Rightarrow> map_of kvs k)"

text \<open>\<^verbatim>\<open>delete(m, k)\<close>: a no-op on a nil map.\<close>

definition map_delete :: "'v gomap \<Rightarrow> string \<Rightarrow> 'v gomap" where
  "map_delete m k = (case m of None \<Rightarrow> None | Some kvs \<Rightarrow> Some (AList.delete k kvs))"

definition map_keys :: "'v gomap \<Rightarrow> string list" where
  "map_keys m = (case m of None \<Rightarrow> [] | Some kvs \<Rightarrow> map fst kvs)"

text \<open>\<^verbatim>\<open>range s\<close> and \<^verbatim>\<open>len(s)\<close> read a nil slice as the empty one.\<close>

definition elems :: "'a slice \<Rightarrow> 'a list" where
  "elems s = (case s of None \<Rightarrow> [] | Some xs \<Rightarrow> xs)"

definition len :: "'a slice \<Rightarrow> nat" where
  "len s = length (elems s)"

text \<open>\<^verbatim>\<open>append(s, x)\<close>: the result is never nil.\<close>

definition go_append :: "'a slice \<Rightarrow> 'a \<Rightarrow> 'a slice" where
  "go_append s x = Some (elems s @ [x])"

text \<open>
  Error values. \<open>JSONError\<close> stands for any error of \<^verbatim>\<open>encoding/json\<close>,
  \<open>WrapText e s\<close> for \<^verbatim>\<open>fmt.Errorf("%w: %v", e, s)\<close> with a string \<open>s\<close> and
  \<open>WrapErr e c\<close> for the same with an error \<open>c\<close>; \<open>errors_Is\<close> is \<^verbatim>\<open>errors.Is\<close>.
\<close>

datatype error =
    ErrTooManyItems
  | ErrBadDestination
  | ErrBadItem
  | JSONError
  | TransportError string
  | WrapText error string
  | WrapErr error error

fun errors_Is :: "error \<Rightarrow> error \<Rightarrow> bool" where
  "errors_Is (WrapText e s) t = (WrapText e s = t \<or> errors_Is e t)"
| "errors_Is (WrapErr e c) t = (WrapErr e c = t \<or> errors_Is e t)"
| "errors_Is e t = (e = t)"

datatype panic = NilDereference | IndexOutOfRange | TypeAssertion | NilMapAssignment

datatype 'a outcome = Return 'a | Panic panic

text \<open>
  A caller value of type \<^verbatim>\<open>interface{}\<close>: the nil interface, a non-nil value with the
  JSON tree \<^verbatim>\<open>json.Marshal\<close> writes for it (a typed nil pointer is \<open>Value JNull\<close>), a
  slice \<^verbatim>\<open>[]interface{}\<close> of such values, or a value \<^verbatim>\<open>json.Marshal\<close> rejects (a
  channel, a function).
\<close>

datatype interface = GoNil | Value jvalue | Slice "interface list" | Unsupported

fun marshal :: "interface \<Rightarrow> jvalue option" where
  "marshal GoNil = Some JNull"
| "marshal (Value j) = Some j"
| "marshal (Slice xs) = map_option JArray (those (map marshal xs))"
| "marshal Unsupported = None"

type_synonym baseItem = "jvalue gomap"

text \<open>
  \<^verbatim>\<open>json.Unmarshal(data, &bi)\<close> for \<^verbatim>\<open>bi baseItem\<close>: \<^verbatim>\<open>null\<close> leaves the nil map, an
  object stores its members one after the other (a repeated name keeps the last value),
  anything else is an error. A field value, of type \<^verbatim>\<open>interface{}\<close>, is kept as its JSON
  tree.
\<close>

fun unmarshal_baseItem :: "jvalue \<Rightarrow> error + baseItem" where
  "unmarshal_baseItem JNull = Inr None"
| "unmarshal_baseItem (JObject kvs) = Inr (Some (foldl (\<lambda>m (k, v). AList.update k v m) [] kvs))"
| "unmarshal_baseItem _ = Inl JSONError"

fun unmarshal_elements :: "jvalue list \<Rightarrow> error + baseItem list" where
  "unmarshal_elements [] = Inr []"
| "unmarshal_elements (j # js) =
     (case unmarshal_baseItem j of
        Inl e \<Rightarrow> Inl e
      | Inr bi \<Rightarrow> (case unmarshal_elements js of Inl e \<Rightarrow> Inl e | Inr bis \<Rightarrow> Inr (bi # bis)))"

text \<open>\<^verbatim>\<open>json.Unmarshal(data, &bi)\<close> for \<^verbatim>\<open>bi []baseItem\<close>.\<close>

fun unmarshal_baseItems :: "jvalue \<Rightarrow> error + baseItem slice" where
  "unmarshal_baseItems JNull = Inr None"
| "unmarshal_baseItems (JArray js) =
     (case unmarshal_elements js of Inl e \<Rightarrow> Inl e | Inr bis \<Rightarrow> Inr (Some bis))"
| "unmarshal_baseItems _ = Inl JSONError"

section \<open>Value normalizer\<close>

text \<open>
  \<^verbatim>\<open>removeEmptyKey\<close> mutates the map it is given; the model returns the map after the call
  next to the error.
\<close>

definition removeEmptyKey :: "baseItem \<Rightarrow> baseItem \<times> error option" where
  "removeEmptyKey bi =
     (case map_index bi ''key'' of
        None \<Rightarrow> (bi, None)
      | Some key \<Rightarrow>
          (case key of
             JString s \<Rightarrow> (if s = '''' then map_delete bi ''key'' else bi, None)
           | _ \<Rightarrow> (bi, Some (WrapText ErrBadItem ''Key is not a string''))))"

definition modifyItem :: "interface \<Rightarrow> baseItem \<times> error option" where
  "modifyItem item =
     (case marshal item of
        None \<Rightarrow> (None, Some ErrBadItem)
      | Some data \<Rightarrow>
          (case unmarshal_baseItem data of
             Inl err \<Rightarrow> (None, Some (WrapErr ErrBadItem err))
           | Inr bi \<Rightarrow>
               (case removeEmptyKey bi of
                  (bi', Some err) \<Rightarrow> (None, Some err)
                | (bi', None) \<Rightarrow> (bi', None))))"

text \<open>
  The loop of \<^verbatim>\<open>modifyItems\<close>: \<^verbatim>\<open>removeEmptyKey\<close> on each element in turn, stopping at the
  first error.
\<close>

fun removeEmptyKeys :: "baseItem list \<Rightarrow> baseItem list \<times> error option" where
  "removeEmptyKeys [] = ([], None)"
| "removeEmptyKeys (item # rest) =
     (case removeEmptyKey item of
        (item', Some err) \<Rightarrow> (item' # rest, Some err)
      | (item', None) \<Rightarrow>
          (case removeEmptyKeys rest of (rest', err) \<Rightarrow> (item' # rest', err)))"

definition modifyItems :: "interface \<Rightarrow> baseItem slice \<times> error option" where
  "modifyItems items =
     (case marshal items of
        None \<Rightarrow> (None, Some ErrBadItem)
      | Some data \<Rightarrow>
          (case unmarshal_baseItems data of
             Inl err \<Rightarrow> (None, Some (WrapErr ErrBadItem err))
           | Inr bi \<Rightarrow>
               (case removeEmptyKeys (elems bi) of
                  (bi', Some err) \<Rightarrow> (None, Some err)
                | (bi', None) \<Rightarrow> (case bi of None \<Rightarrow> None | Some _ \<Rightarrow> Some bi', None))))"

text \<open>
  The two observations the key rules are stated with: an item whose \<^verbatim>\<open>key\<close> field is there
  and is not a string; and an item \<open>bi'\<close> that is \<open>bi\<close> with its key sanitized (an empty
  string key gone and every other field as it was, any other item unchanged).
\<close>

definition has_bad_key :: "baseItem \<Rightarrow> bool" where
  "has_bad_key bi =
     (case map_index bi ''key'' of None \<Rightarrow> False | Some (JString s) \<Rightarrow> False | Some _ \<Rightarrow> True)"

definition key_sanitized :: "baseItem \<Rightarrow> baseItem \<Rightarrow> bool" where
  "key_sanitized bi bi' =
     (case map_index bi ''key'' of
        Some (JString s) \<Rightarrow>
          (if s = '''' then
             map_index bi' ''key'' = None \<and> (\<forall>f. f \<noteq> ''key'' \<longrightarrow> map_index bi' f = map_index bi f)
           else bi' = bi)
      | _ \<Rightarrow> bi' = bi)"




section \<open>Update-operation encoder\<close>

text \<open>
  Modelled from the spec: the wrapper types \<^verbatim>\<open>*trimUtil\<close>, \<^verbatim>\<open>*appendUtil\<close>,
  \<^verbatim>\<open>*prependUtil\<close> and \<^verbatim>\<open>*incrementUtil\<close> are declared outside \<^verbatim>\<open>base.go\<close>. A value
  of an update set is one of the four wrappers (a non-nil pointer, the last three holding
  a \<^verbatim>\<open>value\<close>) or any other value (\<open>Plain\<close>), which is what the type switch of
  \<^verbatim>\<open>updatesToUpdateRequest\<close> tells apart.
\<close>

datatype update =
    TrimUtil
  | AppendUtil interface
  | PrependUtil interface
  | IncrementUtil interface
  | Plain interface

text \<open>
  \<^verbatim>\<open>Updates\<close> is a Go map; the order of its association list is the order in which
  \<^verbatim>\<open>range\<close> visits the entries, which Go leaves open.
\<close>

type_synonym Updates = "update gomap"

definition entries :: "'v gomap \<Rightarrow> (string \<times> 'v) list" where
  "entries m = (case m of None \<Rightarrow> [] | Some kvs \<Rightarrow> kvs)"

record updateRequest =
  Set :: "interface gomap"
  Trim :: "string slice"
  Append :: "interface gomap"
  Prepend :: "interface gomap"
  Increment :: "interface gomap"

text \<open>\<^verbatim>\<open>m[k] = v\<close>: Go panics when \<open>m\<close> is the nil map.\<close>

definition map_assign :: "'v gomap \<Rightarrow> string \<Rightarrow> 'v \<Rightarrow> 'v gomap outcome" where
  "map_assign m k v =
     (case m of None \<Rightarrow> Panic NilMapAssignment | Some kvs \<Rightarrow> Return (Some (AList.update k v kvs)))"

fun updates_loop :: "updateRequest \<Rightarrow> (string \<times> update) list \<Rightarrow> updateRequest outcome" where
  "updates_loop updateReq [] = Return updateReq"
| "updates_loop updateReq ((k, v) # rest) =
     (case v of
        TrimUtil \<Rightarrow> updates_loop (updateReq\<lparr>Trim := go_append (Trim updateReq) k\<rparr>) rest
      | AppendUtil x \<Rightarrow>
          (case map_assign (Append updateReq) k x of
             Panic p \<Rightarrow> Panic p
           | Return m \<Rightarrow> updates_loop (updateReq\<lparr>Append := m\<rparr>) rest)
      | PrependUtil x \<Rightarrow>
          (case map_assign (Prepend updateReq) k x of
             Panic p \<Rightarrow> Panic p
           | Return m \<Rightarrow> updates_loop (updateReq\<lparr>Prepend := m\<rparr>) rest)
      | IncrementUtil x \<Rightarrow>
          (case map_assign (Increment updateReq) k x of
             Panic p \<Rightarrow> Panic p
           | Return m \<Rightarrow> updates_loop (updateReq\<lparr>Increment := m\<rparr>) rest)
      | Plain x \<Rightarrow>
          (case map_assign (Set updateReq) k x of
             Panic p \<Rightarrow> Panic p
           | Return m \<Rightarrow> updates_loop (updateReq\<lparr>Set := m\<rparr>) rest))"

definition updatesToUpdateRequest :: "Updates \<Rightarrow> updateRequest outcome" where
  "updatesToUpdateRequest updates =
     updates_loop
       \<lparr>Set = Some [], Trim = None, Append = Some [], Prepend = Some [], Increment = Some []\<rparr>
       (entries updates)"

text \<open>
  The JSON that \<^verbatim>\<open>encoding/json\<close> writes for an \<^verbatim>\<open>updateRequest\<close>, from the struct tags:
  the five fields in the order of their declaration; a map as an object with its keys
  sorted, the nil map as \<^verbatim>\<open>null\<close>; a slice as an array, the nil slice as \<^verbatim>\<open>null\<close>.
\<close>

definition marshal_member :: "string \<times> interface \<Rightarrow> (string \<times> jvalue) option" where
  "marshal_member kv = map_option (Pair (fst kv)) (marshal (snd kv))"

definition marshal_map :: "interface gomap \<Rightarrow> jvalue option" where
  "marshal_map m =
     (case m of
        None \<Rightarrow> Some JNull
      | Some kvs \<Rightarrow> map_option JObject (those (map marshal_member (sort_key fst kvs))))"

definition marshal_strings :: "string slice \<Rightarrow> jvalue" where
  "marshal_strings s = (case s of None \<Rightarrow> JNull | Some xs \<Rightarrow> JArray (map JString xs))"

definition marshal_updateRequest :: "updateRequest \<Rightarrow> jvalue option" where
  "marshal_updateRequest ur =
     (case (marshal_map (Set ur), marshal_map (Append ur), marshal_map (Prepend ur),
            marshal_map (Increment ur)) of
        (Some s, Some a, Some p, Some i) \<Rightarrow>
          Some (JObject [(''set'', s), (''trim'', marshal_strings (Trim ur)), (''append'', a),
                         (''prepend'', p), (''increment'', i)])
      | _ \<Rightarrow> None)"

text \<open>
  How often a field name occurs in the five buckets of a request, all buckets together.
\<close>

definition bucket_count :: "updateRequest \<Rightarrow> string \<Rightarrow> nat" where
  "bucket_count r k =
     count_list (map_keys (Set r)) k + count_list (elems (Trim r)) k + count_list (map_keys (Append r)) k
     + count_list (map_keys (Prepend r)) k + count_list (map_keys (Increment r)) k"

text \<open>The bucket an entry belongs in, by the tag of its value alone.\<close>

definition in_bucket_of_tag :: "updateRequest \<Rightarrow> string \<Rightarrow> update \<Rightarrow> bool" where
  "in_bucket_of_tag r k v =
     (case v of
        TrimUtil \<Rightarrow> k \<in> set (elems (Trim r))
      | AppendUtil x \<Rightarrow> map_index (Append r) k = Some x
      | PrependUtil x \<Rightarrow> map_index (Prepend r) k = Some x
      | IncrementUtil x \<Rightarrow> map_index (Increment r) k = Some x
      | Plain x \<Rightarrow> map_index (Set r) k = Some x)"

text \<open>The four maps of a request have been made (none is the nil map).\<close>

definition buckets_made :: "updateRequest \<Rightarrow> bool" where
  "buckets_made r \<longleftrightarrow> Set r \<noteq> None \<and> Append r \<noteq> None \<and> Prepend r \<noteq> None \<and> Increment r \<noteq> None"

section \<open>Transport and response decoding\<close>

text \<open>
  Modelled from the spec: \<^verbatim>\<open>client.request\<close> and \<^verbatim>\<open>requestInput\<close> are declared outside
  \<^verbatim>\<open>base.go\<close>. The spec gives the transport one operation, from a method, a path and an
  optional body to a response body or an error. Here the remote side is a function on a
  state of its own (\<open>'s\<close>), the response body is opaque (\<open>'b\<close>), and every call is
  appended to the log \<open>sent\<close>.
\<close>

record putResponse =
  Processed :: "baseItem slice gomap"
  Failed :: "baseItem slice gomap"

record paging =
  Size :: int
  Last :: "string option"

type_synonym Query = "jvalue gomap slice"

record fetchRequest =
  Query :: Query
  Last :: "string option"
  Limit :: "int option"

record fetchResponse =
  Paging :: "paging option"
  Items :: "jvalue slice"

datatype body = ItemsBody "baseItem slice" | FetchBody fetchRequest

record requestInput =
  Path :: string
  Method :: string
  Body :: body

type_synonym ('s, 'b) detaClient = "requestInput \<Rightarrow> 's \<Rightarrow> (error + 'b) \<times> 's"

record 's world =
  remote :: 's
  sent :: "requestInput list"

definition request ::
  "('s, 'b) detaClient \<Rightarrow> requestInput \<Rightarrow> 's world \<Rightarrow> (error + 'b) \<times> 's world" where
  "request client inp w =
     (case client inp (remote w) of
        (out, s') \<Rightarrow> (out, \<lparr>remote = s', sent = sent w @ [inp]\<rparr>))"

text \<open>
  \<^verbatim>\<open>json.Unmarshal\<close> of a response body into \<^verbatim>\<open>putResponse\<close> and into \<^verbatim>\<open>fetchResponse\<close>
  belongs to \<^verbatim>\<open>encoding/json\<close>; both are parameters, so that every statement below holds
  whatever the decoder makes of a body.
\<close>

record 'b json =
  unmarshal_putResponse :: "'b \<Rightarrow> error + putResponse"
  unmarshal_fetchResponse :: "'b \<Rightarrow> error + fetchResponse"

section \<open>Bulk-put orchestrator\<close>

text \<open>\<^verbatim>\<open>pr.Processed["items"]\<close>: the nil slice when the map has no such entry.\<close>

definition processed_items :: "putResponse \<Rightarrow> baseItem slice" where
  "processed_items pr =
     (case map_index (Processed pr) ''items'' of None \<Rightarrow> None | Some items \<Rightarrow> items)"

text \<open>
  The loop of \<^verbatim>\<open>put\<close>. The assertion \<^verbatim>\<open>item["key"].(string)\<close> panics unless the field is
  there and holds a string; \<open>string_key\<close> is the observation the statements about the loop
  use: the string under \<^verbatim>\<open>key\<close>, if the item has one.
\<close>

definition string_key :: "baseItem \<Rightarrow> string option" where
  "string_key item = (case map_index item ''key'' of Some (JString s) \<Rightarrow> Some s | _ \<Rightarrow> None)"

fun put_loop :: "string slice \<Rightarrow> baseItem list \<Rightarrow> string slice outcome" where
  "put_loop ks [] = Return ks"
| "put_loop ks (item # rest) =
     (case map_index item ''key'' of
        Some (JString s) \<Rightarrow> put_loop (go_append ks s) rest
      | _ \<Rightarrow> Panic TypeAssertion)"

definition put ::
  "'b json \<Rightarrow> ('s, 'b) detaClient \<Rightarrow> baseItem slice \<Rightarrow> 's world
   \<Rightarrow> (string slice \<times> error option) outcome \<times> 's world" where
  "put js client items w =
     (case request client \<lparr>Path = ''/items'', Method = ''PUT'', Body = ItemsBody items\<rparr> w of
        (Inl err, w') \<Rightarrow> (Return (None, Some err), w')
      | (Inr obody, w') \<Rightarrow>
          (case unmarshal_putResponse js obody of
             Inl err \<Rightarrow> (Return (None, Some err), w')
           | Inr pr \<Rightarrow>
               (case put_loop None (elems (processed_items pr)) of
                  Panic p \<Rightarrow> (Panic p, w')
                | Return ks \<Rightarrow> (Return (ks, None), w'))))"

definition Put ::
  "'b json \<Rightarrow> ('s, 'b) detaClient \<Rightarrow> interface \<Rightarrow> 's world
   \<Rightarrow> (string \<times> error option) outcome \<times> 's world" where
  "Put js client item w =
     (if item = GoNil then (Return ('''', None), w)
      else
        (case modifyItems (Slice [item]) of
           (modifiedItems, Some err) \<Rightarrow> (Return ('''', Some err), w)
         | (modifiedItems, None) \<Rightarrow>
             (case put js client modifiedItems w of
                (Panic p, w') \<Rightarrow> (Panic p, w')
              | (Return (putKeys, Some err), w') \<Rightarrow> (Return ('''', Some err), w')
              | (Return (putKeys, None), w') \<Rightarrow>
                  (case elems putKeys of
                     [] \<Rightarrow> (Panic IndexOutOfRange, w')
                   | k # _ \<Rightarrow> (Return (k, None), w')))))"

definition PutMany ::
  "'b json \<Rightarrow> ('s, 'b) detaClient \<Rightarrow> interface \<Rightarrow> 's world
   \<Rightarrow> (string slice \<times> error option) outcome \<times> 's world" where
  "PutMany js client items w =
     (case modifyItems items of
        (modifiedItems, Some err) \<Rightarrow> (Return (None, Some err), w)
      | (modifiedItems, None) \<Rightarrow>
          (if len modifiedItems = 0 then (Return (None, None), w)
           else if len modifiedItems > 25 then (Return (None, Some ErrTooManyItems), w)
           else put js client modifiedItems w))"

section \<open>Query and pagination driver\<close>

definition fetch ::
  "'b json \<Rightarrow> ('s, 'b) detaClient \<Rightarrow> fetchRequest \<Rightarrow> 's world
   \<Rightarrow> (fetchResponse option \<times> error option) \<times> 's world" where
  "fetch js client req w =
     (case request client \<lparr>Path = ''/query'', Method = ''POST'', Body = FetchBody req\<rparr> w of
        (Inl err, w') \<Rightarrow> ((None, Some err), w')
      | (Inr obody, w') \<Rightarrow>
          (case unmarshal_fetchResponse js obody of
             Inl err \<Rightarrow> ((None, Some err), w')
           | Inr fr \<Rightarrow> ((Some fr, None), w')))"

text \<open>
  \<^verbatim>\<open>json.Marshal(res.Items)\<close>: the items are decoded JSON values, so the call has no error
  to give; the nil slice is written as \<^verbatim>\<open>null\<close>.
\<close>

definition items_json :: "jvalue slice \<Rightarrow> jvalue" where
  "items_json s = (case s of None \<Rightarrow> JNull | Some js \<Rightarrow> JArray js)"

definition marshal_Items :: "jvalue slice \<Rightarrow> jvalue option" where
  "marshal_Items s = Some (items_json s)"

text \<open>
  \<^verbatim>\<open>Fetch\<close> writes the items through the pointer \<^verbatim>\<open>dest\<close>. What \<^verbatim>\<open>json.Unmarshal(data, &dest)\<close>
  does depends on the caller's destination type, so it is the parameter \<open>scan\<close>, from the
  JSON and the destination before the call to the destination after it and the error;
  \<^verbatim>\<open>Fetch\<close> returns the destination as its second component. \<^verbatim>\<open>Fetch\<close> takes a query, a
  destination and a limit, and nothing else: the field \<^verbatim>\<open>Last\<close> of the request it builds
  keeps its zero value. The two dereferences, \<^verbatim>\<open>res.Items\<close> and \<^verbatim>\<open>res.Paging.Last\<close>, panic
  on a nil pointer.
\<close>

definition Fetch ::
  "'b json \<Rightarrow> ('s, 'b) detaClient \<Rightarrow> (jvalue \<Rightarrow> 'd \<Rightarrow> 'd \<times> error option) \<Rightarrow> Query \<Rightarrow> 'd \<Rightarrow> int
   \<Rightarrow> 's world \<Rightarrow> (string \<times> error option) outcome \<times> 'd \<times> 's world" where
  "Fetch js client scan query dest limit w =
     (let req = \<lparr>Query = query, Last = None, Limit = (if limit > 0 then Some limit else None)\<rparr>
      in case fetch js client req w of
           ((res, Some err), w') \<Rightarrow> (Return ('''', Some err), dest, w')
         | ((None, None), w') \<Rightarrow> (Panic NilDereference, dest, w')
         | ((Some res, None), w') \<Rightarrow>
             (case marshal_Items (Items res) of
                None \<Rightarrow> (Return ('''', Some JSONError), dest, w')
              | Some data \<Rightarrow>
                  (case scan data dest of
                     (dest', Some err) \<Rightarrow>
                       (Return ('''', Some (WrapErr ErrBadDestination err)), dest', w')
                   | (dest', None) \<Rightarrow>
                       (case Paging res of
                          None \<Rightarrow> (Panic NilDereference, dest', w')
                        | Some pg \<Rightarrow>
                            (Return (case paging.Last pg of None \<Rightarrow> '''' | Some lastKey \<Rightarrow> lastKey,
                                     None), dest', w')))))"

section \<open>Stand-ins for the remote side\<close>

text \<open>
  The statements about \<^verbatim>\<open>put\<close>, \<^verbatim>\<open>Put\<close>, \<^verbatim>\<open>PutMany\<close> and \<^verbatim>\<open>Fetch\<close> hold for every transport
  and decoder. To run them on concrete inputs, a response body is taken to be what it
  decodes to (\<open>response\<close>, \<open>typed_json\<close>), \<open>replies\<close> is the transport that answers every
  request with one fixed body, and \<open>scan_baseItems\<close> is \<^verbatim>\<open>json.Unmarshal(data, &dest)\<close> for
  a destination of type \<^verbatim>\<open>*[]map[string]interface{}\<close>. On an error \<^verbatim>\<open>encoding/json\<close> may
  leave the destination partly written; \<open>scan_baseItems\<close> returns it as it was, and the
  statements about a failed scan are about the cursor and the error that \<^verbatim>\<open>Fetch\<close> returns,
  not about the destination.
\<close>

datatype response = PutResponse putResponse | FetchResponse fetchResponse | Garbled

definition typed_json :: "response json" where
  "typed_json =
     \<lparr>unmarshal_putResponse = (\<lambda>b. case b of PutResponse pr \<Rightarrow> Inr pr | _ \<Rightarrow> Inl JSONError),
      unmarshal_fetchResponse = (\<lambda>b. case b of FetchResponse fr \<Rightarrow> Inr fr | _ \<Rightarrow> Inl JSONError)\<rparr>"

definition replies :: "response \<Rightarrow> (unit, response) detaClient" where
  "replies b inp s = (Inr b, s)"

definition scan_baseItems :: "jvalue \<Rightarrow> baseItem slice \<Rightarrow> baseItem slice \<times> error option" where
  "scan_baseItems data dest =
     (case unmarshal_baseItems data of Inl err \<Rightarrow> (dest, Some err) | Inr bis \<Rightarrow> (bis, None))"

text \<open>
  Modelled from the spec: the remote query endpoint is not part of the repository. The
  spec describes its paging: a request carries an optional \<^verbatim>\<open>limit\<close> and an optional
  cursor \<^verbatim>\<open>last\<close>; the response carries a page of items, its size, and a \<^verbatim>\<open>last\<close> key
  exactly when further items are left. \<open>query_service\<close> keeps the stored items as its
  state, answers a query (every item matches) with the items after the one whose key is
  \<^verbatim>\<open>last\<close>, at most \<^verbatim>\<open>limit\<close> of them, and answers anything else with a body that does not
  decode.
\<close>

definition item_key :: "jvalue \<Rightarrow> string option" where
  "item_key j =
     (case j of
        JObject kvs \<Rightarrow> (case map_of kvs ''key'' of Some (JString s) \<Rightarrow> Some s | _ \<Rightarrow> None)
      | _ \<Rightarrow> None)"

definition query_page :: "fetchRequest \<Rightarrow> jvalue list \<Rightarrow> fetchResponse" where
  "query_page req items =
     (let rest = (case fetchRequest.Last req of
                    None \<Rightarrow> items
                  | Some l \<Rightarrow> drop 1 (dropWhile (\<lambda>j. item_key j \<noteq> Some l) items));
          page = (case Limit req of None \<Rightarrow> rest | Some n \<Rightarrow> take (nat n) rest)
      in \<lparr>Paging = Some \<lparr>Size = int (length page),
                           Last = (if page \<noteq> [] \<and> length page < length rest
                                   then item_key (last page) else None)\<rparr>,
          Items = Some page\<rparr>)"

definition query_service :: "(jvalue list, response) detaClient" where
  "query_service inp items =
     (case Body inp of
        FetchBody req \<Rightarrow> (Inr (FetchResponse (query_page req items)), items)
      | ItemsBody _ \<Rightarrow> (Inr Garbled, items))"

definition collection15 :: "jvalue list" where
  "collection15 =
     map (\<lambda>k. JObject [(''key'', JString k)])
       [''k01'', ''k02'', ''k03'', ''k04'', ''k05'', ''k06'', ''k07'', ''k08'', ''k09'', ''k10'',
        ''k11'', ''k12'', ''k13'', ''k14'', ''k15'']"

definition stored :: "string list \<Rightarrow> baseItem list" where
  "stored ks = map (\<lambda>k. Some [(''key'', JString k)]) ks"

section \<open>Properties of the value normalizer\<close>

lemma removeEmptyKey_error_iff: "snd (removeEmptyKey bi) \<noteq> None \<longleftrightarrow> has_bad_key bi"
  by (auto simp: removeEmptyKey_def has_bad_key_def split: option.splits jvalue.splits)

lemma removeEmptyKey_error_BadItem:
  "removeEmptyKey bi = (bi', Some e) \<Longrightarrow> errors_Is e ErrBadItem"
  by (auto simp: removeEmptyKey_def split: option.splits jvalue.splits if_splits)

lemma removeEmptyKey_sanitized: "removeEmptyKey bi = (bi', None) \<Longrightarrow> key_sanitized bi bi'"
  by (auto simp: removeEmptyKey_def key_sanitized_def map_index_def map_delete_def delete_conv'
      split: option.splits jvalue.splits if_splits)

lemma removeEmptyKeys_error_iff:
  "snd (removeEmptyKeys bis) \<noteq> None \<longleftrightarrow> (\<exists>bi \<in> set bis. has_bad_key bi)"
proof (induction bis)
  case Nil
  show ?case by simp
next
  case (Cons bi bis)
  obtain bi' err where r: "removeEmptyKey bi = (bi', err)" by (cases "removeEmptyKey bi")
  have h: "err \<noteq> None \<longleftrightarrow> has_bad_key bi"
    using removeEmptyKey_error_iff [of bi] r by simp
  show ?case
  proof (cases err)
    case None
    with r h Cons show ?thesis by (auto split: prod.splits)
  next
    case (Some e)
    with r h show ?thesis by auto
  qed
qed

lemma removeEmptyKeys_error_BadItem:
  "removeEmptyKeys bis = (bis', Some e) \<Longrightarrow> errors_Is e ErrBadItem"
proof (induction bis arbitrary: bis')
  case Nil
  then show ?case by simp
next
  case (Cons bi bis)
  then show ?case
    by (auto split: prod.splits option.splits dest: removeEmptyKey_error_BadItem)
qed

lemma removeEmptyKeys_sanitized:
  "removeEmptyKeys bis = (bis', None) \<Longrightarrow> list_all2 key_sanitized bis bis'"
proof (induction bis arbitrary: bis')
  case Nil
  then show ?case by simp
next
  case (Cons bi bis)
  then show ?case
    by (auto split: prod.splits option.splits dest: removeEmptyKey_sanitized)
qed

text \<open>
  C1. Key rules of normalization, on the item the caller value decodes to. For
  \<^verbatim>\<open>modifyItem\<close> (Insert): an item with a non-string \<^verbatim>\<open>key\<close> gives a BadItem error and the
  nil item; any other item is returned with its key sanitized, that is, without the
  \<^verbatim>\<open>key\<close> field when it was the empty string and unchanged when it was a non-empty string
  or absent. For \<^verbatim>\<open>modifyItems\<close> (Put, PutMany): one element with a non-string \<^verbatim>\<open>key\<close>
  gives a BadItem error and the nil slice; otherwise every element is returned with its
  key sanitized.
\<close>

theorem normalization_key_rules:
  "(marshal item = Some data \<and> unmarshal_baseItem data = Inr bi \<longrightarrow>
      (if has_bad_key bi then \<exists>e. modifyItem item = (None, Some e) \<and> errors_Is e ErrBadItem
       else \<exists>bi'. modifyItem item = (bi', None) \<and> key_sanitized bi bi'))
   \<and> (marshal items = Some datas \<and> unmarshal_baseItems datas = Inr bis \<longrightarrow>
      (if \<exists>bi \<in> set (elems bis). has_bad_key bi
       then \<exists>e. modifyItems items = (None, Some e) \<and> errors_Is e ErrBadItem
       else \<exists>bis'. modifyItems items = (bis', None) \<and> (bis' = None \<longleftrightarrow> bis = None)
              \<and> list_all2 key_sanitized (elems bis) (elems bis')))"
proof (intro conjI impI)
  assume a: "marshal item = Some data \<and> unmarshal_baseItem data = Inr bi"
  obtain bi' err where r: "removeEmptyKey bi = (bi', err)" by (cases "removeEmptyKey bi")
  have h: "err \<noteq> None \<longleftrightarrow> has_bad_key bi"
    using removeEmptyKey_error_iff [of bi] r by simp
  show "if has_bad_key bi then \<exists>e. modifyItem item = (None, Some e) \<and> errors_Is e ErrBadItem
       else \<exists>bi'. modifyItem item = (bi', None) \<and> key_sanitized bi bi'"
  proof (cases err)
    case None
    with a r h removeEmptyKey_sanitized [of bi bi'] show ?thesis
      by (simp add: modifyItem_def)
  next
    case (Some e)
    with a r h removeEmptyKey_error_BadItem [of bi bi' e] show ?thesis
      by (simp add: modifyItem_def)
  qed
next
  assume a: "marshal items = Some datas \<and> unmarshal_baseItems datas = Inr bis"
  obtain bis' err where r: "removeEmptyKeys (elems bis) = (bis', err)"
    by (cases "removeEmptyKeys (elems bis)")
  have h: "err \<noteq> None \<longleftrightarrow> (\<exists>bi \<in> set (elems bis). has_bad_key bi)"
    using removeEmptyKeys_error_iff [of "elems bis"] r by simp
  show "if \<exists>bi \<in> set (elems bis). has_bad_key bi
       then \<exists>e. modifyItems items = (None, Some e) \<and> errors_Is e ErrBadItem
       else \<exists>bis'. modifyItems items = (bis', None) \<and> (bis' = None \<longleftrightarrow> bis = None)
              \<and> list_all2 key_sanitized (elems bis) (elems bis')"
  proof (cases err)
    case None
    with a r h removeEmptyKeys_sanitized [of "elems bis" bis'] show ?thesis
      by (cases bis) (simp_all add: modifyItems_def elems_def)
  next
    case (Some e)
    with a r h removeEmptyKeys_error_BadItem [of "elems bis" bis' e] show ?thesis
      by (simp add: modifyItems_def)
  qed
qed


theorem normalization_key_rules_witness:
  "marshal (Value (JObject [(''key'', JString ''''), (''name'', JString ''a'')]))
     = Some (JObject [(''key'', JString ''''), (''name'', JString ''a'')])
   \<and> unmarshal_baseItem (JObject [(''key'', JString ''''), (''name'', JString ''a'')])
     = Inr (Some [(''key'', JString ''''), (''name'', JString ''a'')])
   \<and> (\<exists>bi'. modifyItem (Value (JObject [(''key'', JString ''''), (''name'', JString ''a'')])) = (bi', None)
         \<and> key_sanitized (Some [(''key'', JString ''''), (''name'', JString ''a'')]) bi')
   \<and> marshal (Slice [Value (JObject [(''key'', JString ''k1'')]), Value (JObject [(''key'', JNumber 7)])])
     = Some (JArray [JObject [(''key'', JString ''k1'')], JObject [(''key'', JNumber 7)]])
   \<and> unmarshal_baseItems (JArray [JObject [(''key'', JString ''k1'')], JObject [(''key'', JNumber 7)]])
     = Inr (Some [Some [(''key'', JString ''k1'')], Some [(''key'', JNumber 7)]])
   \<and> (\<exists>e. modifyItems (Slice [Value (JObject [(''key'', JString ''k1'')]), Value (JObject [(''key'', JNumber 7)])])
           = (None, Some e) \<and> errors_Is e ErrBadItem)"
  using normalization_key_rules
    [of "Value (JObject [(''key'', JString ''''), (''name'', JString ''a'')])"
        "JObject [(''key'', JString ''''), (''name'', JString ''a'')]"
        "Some [(''key'', JString ''''), (''name'', JString ''a'')]"
        "Slice [Value (JObject [(''key'', JString ''k1'')]), Value (JObject [(''key'', JNumber 7)])]"
        "JArray [JObject [(''key'', JString ''k1'')], JObject [(''key'', JNumber 7)]]"
        "Some [Some [(''key'', JString ''k1'')], Some [(''key'', JNumber 7)]]"]
  by (simp add: has_bad_key_def map_index_def elems_def)

lemma slice_all_ok:
  "\<forall>x \<in> set xs. snd (modifyItem x) = None \<Longrightarrow>
   \<exists>js bis. those (map marshal xs) = Some js \<and> unmarshal_elements js = Inr bis
     \<and> removeEmptyKeys bis = (map (fst \<circ> modifyItem) xs, None)"
proof (induction xs)
  case Nil
  show ?case by simp
next
  case (Cons x xs)
  then obtain js bis where ih: "those (map marshal xs) = Some js" "unmarshal_elements js = Inr bis"
    "removeEmptyKeys bis = (map (fst \<circ> modifyItem) xs, None)" by auto
  from Cons.prems have ok: "snd (modifyItem x) = None" by simp
  then obtain j where j: "marshal x = Some j"
    by (cases "marshal x") (auto simp: modifyItem_def)
  from ok j obtain bi where bi: "unmarshal_baseItem j = Inr bi"
    by (cases "unmarshal_baseItem j") (auto simp: modifyItem_def)
  from ok j bi have r: "removeEmptyKey bi = (fst (modifyItem x), None)"
    by (auto simp: modifyItem_def split: prod.splits option.splits)
  show ?case using ih j bi r by simp
qed

lemma slice_one_bad:
  "x \<in> set xs \<Longrightarrow> snd (modifyItem x) \<noteq> None \<Longrightarrow>
   those (map marshal xs) = None \<or>
   (\<exists>js. those (map marshal xs) = Some js \<and>
      (isl (unmarshal_elements js) \<or>
       (\<exists>bis. unmarshal_elements js = Inr bis \<and> snd (removeEmptyKeys bis) \<noteq> None)))"
proof (induction xs)
  case Nil
  then show ?case by simp
next
  case (Cons y ys)
  show ?case
  proof (cases "those (map marshal (y # ys))")
    case None
    then show ?thesis by simp
  next
    case (Some js0)
    then obtain j js where j: "marshal y = Some j" and js: "those (map marshal ys) = Some js"
      and js0: "js0 = j # js"
      by (auto split: option.splits)
    show ?thesis
    proof (cases "unmarshal_elements js0")
      case (Inl e)
      with Some show ?thesis by simp
    next
      case (Inr bis0)
      then obtain bi bis where bi: "unmarshal_baseItem j = Inr bi"
        and bis: "unmarshal_elements js = Inr bis" and bis0: "bis0 = bi # bis"
        using js0 by (auto split: sum.splits)
      have "snd (removeEmptyKeys (bi # bis)) \<noteq> None"
      proof (cases "x = y")
        case True
        with Cons.prems j bi have "snd (removeEmptyKey bi) \<noteq> None"
          by (auto simp: modifyItem_def split: prod.splits option.splits)
        then show ?thesis by (auto split: prod.splits option.splits)
      next
        case False
        with Cons js bis have "snd (removeEmptyKeys bis) \<noteq> None" by auto
        then show ?thesis by (auto split: prod.splits option.splits)
      qed
      with Some Inr bis0 show ?thesis by simp
    qed
  qed
qed

lemma slice_all_ok2:
  "\<forall>x \<in> set xs. snd (modifyItem x) = None \<Longrightarrow>
   modifyItems (Slice xs) = (Some (map (fst \<circ> modifyItem) xs), None)"
  using slice_all_ok [of xs] by (auto simp: modifyItems_def elems_def)

lemma slice_bad:
  "x \<in> set xs \<Longrightarrow> snd (modifyItem x) \<noteq> None \<Longrightarrow> \<exists>e. modifyItems (Slice xs) = (None, Some e)"
  using slice_one_bad [of x xs]
  by (auto simp: modifyItems_def elems_def isl_def split: option.splits sum.splits prod.splits)

lemma modifyItems_error_BadItem:
  "modifyItems items = (r, Some e) \<Longrightarrow> errors_Is e ErrBadItem"
  by (auto simp: modifyItems_def split: option.splits sum.splits prod.splits
      dest: removeEmptyKeys_error_BadItem)





section \<open>Properties of the update-operation encoder\<close>

lemma count_keys_update:
  "count_list (map fst (AList.update k v al)) k' =
     (if k' = k \<and> k \<notin> fst ` set al then Suc (count_list (map fst al) k')
      else count_list (map fst al) k')"
  by (simp add: update_keys)

lemma bucket_count_zero_iff:
  "bucket_count r k = 0 \<longleftrightarrow>
     k \<notin> set (map_keys (Set r)) \<and> k \<notin> set (elems (Trim r)) \<and> k \<notin> set (map_keys (Append r))
     \<and> k \<notin> set (map_keys (Prepend r)) \<and> k \<notin> set (map_keys (Increment r))"
  by (simp add: bucket_count_def count_list_0_iff)

lemma updates_loop_spec:
  "distinct (map fst us) \<Longrightarrow> buckets_made r \<Longrightarrow> \<forall>k \<in> fst ` set us. bucket_count r k = 0 \<Longrightarrow>
   \<exists>r'. updates_loop r us = Return r'
     \<and> (\<forall>k. bucket_count r' k = bucket_count r k + (if k \<in> fst ` set us then 1 else 0))
     \<and> (\<forall>(k, v) \<in> set us. in_bucket_of_tag r' k v)
     \<and> (\<forall>k v. k \<notin> fst ` set us \<longrightarrow> in_bucket_of_tag r k v \<longrightarrow> in_bucket_of_tag r' k v)"
proof (induction us arbitrary: r)
  case Nil
  then show ?case by simp
next
  case (Cons kv us)
  obtain k v where kv: "kv = (k, v)" by (cases kv)
  from Cons.prems kv have fresh_k: "bucket_count r k = 0" by simp
  from Cons.prems kv have k_new: "k \<notin> fst ` set us" by (auto simp: image_iff)
  from Cons.prems have dist: "distinct (map fst us)" by simp
  have step: "\<exists>r1. updates_loop r (kv # us) = updates_loop r1 us \<and> buckets_made r1
      \<and> (\<forall>k'. bucket_count r1 k' = bucket_count r k' + (if k' = k then 1 else 0))
      \<and> in_bucket_of_tag r1 k v
      \<and> (\<forall>k' v'. k' \<noteq> k \<longrightarrow> in_bucket_of_tag r k' v' \<longrightarrow> in_bucket_of_tag r1 k' v')"
  proof (cases v)
    case TrimUtil
    show ?thesis
      apply (rule exI [of _ "r\<lparr>Trim := go_append (Trim r) k\<rparr>"])
      using Cons.prems(2) fresh_k
      by (auto simp: kv TrimUtil buckets_made_def bucket_count_def go_append_def in_bucket_of_tag_def
          elems_def split: update.splits option.splits)
  next
    case (AppendUtil x)
    from Cons.prems(2) obtain m where m: "Append r = Some m" by (auto simp: buckets_made_def)
    show ?thesis
      apply (rule exI [of _ "r\<lparr>Append := Some (AList.update k x m)\<rparr>"])
      using Cons.prems(2) fresh_k m
      by (auto simp: kv AppendUtil buckets_made_def bucket_count_def map_assign_def in_bucket_of_tag_def
          map_keys_def map_index_def count_keys_update update_conv' count_list_0_iff
          split: update.splits)
  next
    case (PrependUtil x)
    from Cons.prems(2) obtain m where m: "Prepend r = Some m" by (auto simp: buckets_made_def)
    show ?thesis
      apply (rule exI [of _ "r\<lparr>Prepend := Some (AList.update k x m)\<rparr>"])
      using Cons.prems(2) fresh_k m
      by (auto simp: kv PrependUtil buckets_made_def bucket_count_def map_assign_def in_bucket_of_tag_def
          map_keys_def map_index_def count_keys_update update_conv' count_list_0_iff
          split: update.splits)
  next
    case (IncrementUtil x)
    from Cons.prems(2) obtain m where m: "Increment r = Some m" by (auto simp: buckets_made_def)
    show ?thesis
      apply (rule exI [of _ "r\<lparr>Increment := Some (AList.update k x m)\<rparr>"])
      using Cons.prems(2) fresh_k m
      by (auto simp: kv IncrementUtil buckets_made_def bucket_count_def map_assign_def in_bucket_of_tag_def
          map_keys_def map_index_def count_keys_update update_conv' count_list_0_iff
          split: update.splits)
  next
    case (Plain x)
    from Cons.prems(2) obtain m where m: "Set r = Some m" by (auto simp: buckets_made_def)
    show ?thesis
      apply (rule exI [of _ "r\<lparr>Set := Some (AList.update k x m)\<rparr>"])
      using Cons.prems(2) fresh_k m
      by (auto simp: kv Plain buckets_made_def bucket_count_def map_assign_def in_bucket_of_tag_def
          map_keys_def map_index_def count_keys_update update_conv' count_list_0_iff
          split: update.splits)
  qed
  then obtain r1 where r1: "updates_loop r (kv # us) = updates_loop r1 us" "buckets_made r1"
      "\<forall>k'. bucket_count r1 k' = bucket_count r k' + (if k' = k then 1 else 0)"
      "in_bucket_of_tag r1 k v"
      "\<forall>k' v'. k' \<noteq> k \<longrightarrow> in_bucket_of_tag r k' v' \<longrightarrow> in_bucket_of_tag r1 k' v'"
    by blast
  have fresh1: "\<forall>k' \<in> fst ` set us. bucket_count r1 k' = 0"
    using r1(3) Cons.prems(3) k_new by auto
  from Cons.IH [OF dist r1(2) fresh1] obtain r' where r':
      "updates_loop r1 us = Return r'"
      "\<forall>k'. bucket_count r' k' = bucket_count r1 k' + (if k' \<in> fst ` set us then 1 else 0)"
      "\<forall>(k', v') \<in> set us. in_bucket_of_tag r' k' v'"
      "\<forall>k' v'. k' \<notin> fst ` set us \<longrightarrow> in_bucket_of_tag r1 k' v' \<longrightarrow> in_bucket_of_tag r' k' v'"
    by blast
  have c1: "updates_loop r (kv # us) = Return r'" using r1(1) r'(1) by simp
  have c2: "\<forall>k'. bucket_count r' k' = bucket_count r k' + (if k' \<in> fst ` set (kv # us) then 1 else 0)"
    using r'(2) r1(3) k_new kv by auto
  have c3: "\<forall>(k', v') \<in> set (kv # us). in_bucket_of_tag r' k' v'"
    using r'(3) r'(4) r1(4) k_new kv by auto
  have c4: "\<forall>k' v'. k' \<notin> fst ` set (kv # us) \<longrightarrow> in_bucket_of_tag r k' v' \<longrightarrow> in_bucket_of_tag r' k' v'"
    using r'(4) r1(5) kv by auto
  from c1 c2 c3 c4 show ?case by blast
qed

text \<open>
  C2. For every update set (a Go map, so its field names are distinct, visited in any
  order) the encoder returns a request in which every field name of the input occurs
  exactly once over the five buckets taken together and no other name occurs at all; the
  names of the five buckets together are the names of the input; and each entry sits in
  the bucket of its tag, with its value: a trim in \<^verbatim>\<open>Trim\<close>, an append, prepend or increment
  in the map of that name, and any other value in \<^verbatim>\<open>Set\<close>.
\<close>

theorem update_fields_in_exactly_one_bucket:
  assumes "distinct (map_keys updates)"
  shows "\<exists>r. updatesToUpdateRequest updates = Return r
     \<and> (\<forall>k. bucket_count r k = (if k \<in> set (map_keys updates) then 1 else 0))
     \<and> set (map_keys (Set r)) \<union> set (elems (Trim r)) \<union> set (map_keys (Append r))
         \<union> set (map_keys (Prepend r)) \<union> set (map_keys (Increment r)) = set (map_keys updates)
     \<and> (\<forall>(k, v) \<in> set (entries updates). in_bucket_of_tag r k v)"
proof -
  let ?r0 = "\<lparr>Set = Some [], Trim = None, Append = Some [], Prepend = Some [], Increment = Some []\<rparr>"
  have keys: "map_keys updates = map fst (entries updates)"
    by (simp add: map_keys_def entries_def split: option.splits)
  have zero: "\<forall>k. bucket_count ?r0 k = 0"
    by (simp add: bucket_count_def map_keys_def elems_def)
  have made: "buckets_made ?r0" by (simp add: buckets_made_def)
  from assms keys have dist: "distinct (map fst (entries updates))" by simp
  from zero have fresh: "\<forall>k \<in> fst ` set (entries updates). bucket_count ?r0 k = 0" by simp
  from updates_loop_spec [OF dist made fresh] obtain r where r:
      "updates_loop ?r0 (entries updates) = Return r"
      "\<forall>k. bucket_count r k = bucket_count ?r0 k + (if k \<in> fst ` set (entries updates) then 1 else 0)"
      "\<forall>(k, v) \<in> set (entries updates). in_bucket_of_tag r k v"
    by blast
  have cnt: "\<forall>k. bucket_count r k = (if k \<in> set (map_keys updates) then 1 else 0)"
    using r(2) zero keys by simp
  have un: "set (map_keys (Set r)) \<union> set (elems (Trim r)) \<union> set (map_keys (Append r))
         \<union> set (map_keys (Prepend r)) \<union> set (map_keys (Increment r)) = set (map_keys updates)"
  proof (rule set_eqI)
    fix k
    have "bucket_count r k \<noteq> 0 \<longleftrightarrow> k \<in> set (map_keys updates)" using cnt by simp
    then show "k \<in> set (map_keys (Set r)) \<union> set (elems (Trim r)) \<union> set (map_keys (Append r))
         \<union> set (map_keys (Prepend r)) \<union> set (map_keys (Increment r)) \<longleftrightarrow> k \<in> set (map_keys updates)"
      using bucket_count_zero_iff [of r k] by auto
  qed
  from r(1) cnt un r(3) show ?thesis
    by (auto simp: updatesToUpdateRequest_def)
qed


theorem update_fields_in_exactly_one_bucket_witness:
  "distinct (map_keys (Some [(''count'', IncrementUtil (Value (JNumber 1))), (''tag'', TrimUtil),
       (''name'', Plain (Value (JString ''a'')))]))
   \<and> (\<exists>r. updatesToUpdateRequest (Some [(''count'', IncrementUtil (Value (JNumber 1))), (''tag'', TrimUtil),
              (''name'', Plain (Value (JString ''a'')))]) = Return r
        \<and> bucket_count r ''count'' = 1 \<and> bucket_count r ''tag'' = 1 \<and> bucket_count r ''name'' = 1
        \<and> bucket_count r ''other'' = 0
        \<and> in_bucket_of_tag r ''name'' (Plain (Value (JString ''a''))))"
  using update_fields_in_exactly_one_bucket
    [of "Some [(''count'', IncrementUtil (Value (JNumber 1))), (''tag'', TrimUtil),
       (''name'', Plain (Value (JString ''a'')))]"]
  by (auto simp: map_keys_def entries_def)

text \<open>
  C8. The update set \<^verbatim>\<open>{"count": increment(1), "tag": trim()}\<close>, in either order of
  iteration, is encoded as the request that \<^verbatim>\<open>encoding/json\<close> writes as
  \<^verbatim>\<open>{"set":{},"trim":["tag"],"append":{},"prepend":{},"increment":{"count":1}}\<close>: the three
  unused maps are empty objects, neither \<^verbatim>\<open>null\<close> nor left out.
\<close>

theorem update_scenario_wire_request:
  "(\<exists>r. updatesToUpdateRequest (Some [(''count'', IncrementUtil (Value (JNumber 1))), (''tag'', TrimUtil)])
          = Return r
        \<and> marshal_updateRequest r =
            Some (JObject [(''set'', JObject []), (''trim'', JArray [JString ''tag'']),
                           (''append'', JObject []), (''prepend'', JObject []),
                           (''increment'', JObject [(''count'', JNumber 1)])]))
   \<and> (\<exists>r. updatesToUpdateRequest (Some [(''tag'', TrimUtil), (''count'', IncrementUtil (Value (JNumber 1)))])
          = Return r
        \<and> marshal_updateRequest r =
            Some (JObject [(''set'', JObject []), (''trim'', JArray [JString ''tag'']),
                           (''append'', JObject []), (''prepend'', JObject []),
                           (''increment'', JObject [(''count'', JNumber 1)])]))"
  by (simp add: updatesToUpdateRequest_def entries_def map_assign_def go_append_def elems_def
      marshal_updateRequest_def marshal_map_def marshal_member_def marshal_strings_def)

section \<open>Properties of the bulk-put orchestrator\<close>

lemma modifyItems_single:
  "modifyItems (Slice [item]) = (ms, None) \<Longrightarrow> len ms = 1"
  by (auto simp: modifyItems_def len_def elems_def
      split: option.splits sum.splits prod.splits)

lemma put_sent:
  "sent (snd (put js client items w))
     = sent w @ [\<lparr>Path = ''/items'', Method = ''PUT'', Body = ItemsBody items\<rparr>]"
  by (auto simp: put_def request_def split: prod.splits sum.splits outcome.splits)

lemma Put_via_PutMany:
  "Put js client GoNil w = (Return ('''', None), w)
   \<and> (item \<noteq> GoNil \<longrightarrow>
        Put js client item w =
          (case PutMany js client (Slice [item]) w of
             (Panic p, w') \<Rightarrow> (Panic p, w')
           | (Return (ks, Some err), w') \<Rightarrow> (Return ('''', Some err), w')
           | (Return (ks, None), w') \<Rightarrow>
               (case elems ks of
                  [] \<Rightarrow> (Panic IndexOutOfRange, w')
                | k # _ \<Rightarrow> (Return (k, None), w'))))"
proof (intro conjI impI)
  show "Put js client GoNil w = (Return ('''', None), w)"
    by (simp add: Put_def)
next
  assume nn: "item \<noteq> GoNil"
  obtain ms err where m: "modifyItems (Slice [item]) = (ms, err)"
    by (cases "modifyItems (Slice [item])")
  show "Put js client item w =
          (case PutMany js client (Slice [item]) w of
             (Panic p, w') \<Rightarrow> (Panic p, w')
           | (Return (ks, Some err), w') \<Rightarrow> (Return ('''', Some err), w')
           | (Return (ks, None), w') \<Rightarrow>
               (case elems ks of
                  [] \<Rightarrow> (Panic IndexOutOfRange, w')
                | k # _ \<Rightarrow> (Return (k, None), w')))"
  proof (cases err)
    case (Some e)
    with nn m show ?thesis by (simp add: Put_def PutMany_def)
  next
    case None
    with m have l: "len ms = 1" by (simp add: modifyItems_single)
    from nn m None l show ?thesis
      by (simp add: Put_def PutMany_def)
  qed
qed

text \<open>
  C6. \<^verbatim>\<open>Put\<close> of the nil interface returns the empty string and no error and sends
  nothing. For the item \<^verbatim>\<open>{"name": "a"}\<close> and a response that lists it as processed under
  the key \<^verbatim>\<open>abc123\<close>, \<^verbatim>\<open>PutMany\<close> of the one-element slice returns that key and \<^verbatim>\<open>Put\<close>
  returns it too, after the same request. For a response that lists the item as failed and
  nothing as processed, \<^verbatim>\<open>PutMany\<close> of the one-element slice returns the nil slice and no
  error, while \<^verbatim>\<open>Put\<close> panics at \<^verbatim>\<open>putKeys[0]\<close>: there \<^verbatim>\<open>Put\<close> is not the batch put of one
  item.
\<close>

theorem Put_empty_processed_divergence:
  "Put typed_json (replies Garbled) GoNil \<lparr>remote = (), sent = []\<rparr>
     = (Return ('''', None), \<lparr>remote = (), sent = []\<rparr>)
   \<and> PutMany typed_json
        (replies (PutResponse \<lparr>Processed = Some [(''items'', Some [Some [(''key'', JString ''abc123''),
                                                                     (''name'', JString ''a'')]])],
                               Failed = None\<rparr>))
        (Slice [Value (JObject [(''name'', JString ''a'')])]) \<lparr>remote = (), sent = []\<rparr>
      = (Return (Some [''abc123''], None),
         \<lparr>remote = (),
          sent = [\<lparr>Path = ''/items'', Method = ''PUT'',
                   Body = ItemsBody (Some [Some [(''name'', JString ''a'')]])\<rparr>]\<rparr>)
   \<and> Put typed_json
        (replies (PutResponse \<lparr>Processed = Some [(''items'', Some [Some [(''key'', JString ''abc123''),
                                                                     (''name'', JString ''a'')]])],
                               Failed = None\<rparr>))
        (Value (JObject [(''name'', JString ''a'')])) \<lparr>remote = (), sent = []\<rparr>
      = (Return (''abc123'', None),
         \<lparr>remote = (),
          sent = [\<lparr>Path = ''/items'', Method = ''PUT'',
                   Body = ItemsBody (Some [Some [(''name'', JString ''a'')]])\<rparr>]\<rparr>)
   \<and> PutMany typed_json
        (replies (PutResponse \<lparr>Processed = Some [(''items'', Some [])],
                               Failed = Some [(''items'', Some [Some [(''name'', JString ''a'')]])]\<rparr>))
        (Slice [Value (JObject [(''name'', JString ''a'')])]) \<lparr>remote = (), sent = []\<rparr>
      = (Return (None, None),
         \<lparr>remote = (),
          sent = [\<lparr>Path = ''/items'', Method = ''PUT'',
                   Body = ItemsBody (Some [Some [(''name'', JString ''a'')]])\<rparr>]\<rparr>)
   \<and> Put typed_json
        (replies (PutResponse \<lparr>Processed = Some [(''items'', Some [])],
                               Failed = Some [(''items'', Some [Some [(''name'', JString ''a'')]])]\<rparr>))
        (Value (JObject [(''name'', JString ''a'')])) \<lparr>remote = (), sent = []\<rparr>
      = (Panic IndexOutOfRange,
         \<lparr>remote = (),
          sent = [\<lparr>Path = ''/items'', Method = ''PUT'',
                   Body = ItemsBody (Some [Some [(''name'', JString ''a'')]])\<rparr>]\<rparr>)"
  by (simp add: Put_def PutMany_def modifyItems_def removeEmptyKey_def map_index_def elems_def len_def
      put_def request_def replies_def typed_json_def processed_items_def go_append_def)

text \<open>
  C3, as amended. \<^verbatim>\<open>PutMany\<close> of the empty slice returns the nil slice and no error and
  sends nothing. When every element passes normalization: more than 25 elements give
  \<^verbatim>\<open>ErrTooManyItems\<close> and the world is as it was (no request); exactly 25 elements add
  exactly one request to the log, the PUT of the 25 normalized items. When some element
  fails normalization, whatever the number of elements, the error is a BadItem error and
  no request is sent.
\<close>

theorem PutMany_batch_limits:
  "PutMany js client (Slice []) w = (Return (None, None), w)
   \<and> ((\<forall>x \<in> set xs. snd (modifyItem x) = None) \<and> length xs > 25 \<longrightarrow>
        PutMany js client (Slice xs) w = (Return (None, Some ErrTooManyItems), w))
   \<and> ((\<forall>x \<in> set xs. snd (modifyItem x) = None) \<and> length xs = 25 \<longrightarrow>
        sent (snd (PutMany js client (Slice xs) w))
          = sent w @ [\<lparr>Path = ''/items'', Method = ''PUT'',
                       Body = ItemsBody (Some (map (fst \<circ> modifyItem) xs))\<rparr>])
   \<and> ((\<exists>x \<in> set xs. snd (modifyItem x) \<noteq> None) \<longrightarrow>
        (\<exists>e. PutMany js client (Slice xs) w = (Return (None, Some e), w) \<and> errors_Is e ErrBadItem))"
proof (intro conjI impI)
  show "PutMany js client (Slice []) w = (Return (None, None), w)"
    by (simp add: PutMany_def modifyItems_def elems_def len_def)
next
  assume "(\<forall>x \<in> set xs. snd (modifyItem x) = None) \<and> length xs > 25"
  then show "PutMany js client (Slice xs) w = (Return (None, Some ErrTooManyItems), w)"
    by (auto simp: PutMany_def slice_all_ok2 len_def elems_def)
next
  assume "(\<forall>x \<in> set xs. snd (modifyItem x) = None) \<and> length xs = 25"
  then show "sent (snd (PutMany js client (Slice xs) w))
          = sent w @ [\<lparr>Path = ''/items'', Method = ''PUT'',
                       Body = ItemsBody (Some (map (fst \<circ> modifyItem) xs))\<rparr>]"
    by (auto simp: PutMany_def slice_all_ok2 len_def elems_def put_sent)
next
  assume "\<exists>x \<in> set xs. snd (modifyItem x) \<noteq> None"
  then obtain x where x: "x \<in> set xs" "snd (modifyItem x) \<noteq> None" by blast
  from slice_bad [OF x] obtain e where e: "modifyItems (Slice xs) = (None, Some e)" by blast
  have "errors_Is e ErrBadItem" using e by (rule modifyItems_error_BadItem)
  with e show "\<exists>e. PutMany js client (Slice xs) w = (Return (None, Some e), w) \<and> errors_Is e ErrBadItem"
    by (simp add: PutMany_def)
qed


theorem PutMany_batch_limits_witness:
  "snd (modifyItem (Value (JObject [(''name'', JString ''a'')]))) = None
   \<and> length (replicate 26 (Value (JObject [(''name'', JString ''a'')]))) > 25
   \<and> PutMany typed_json (replies Garbled) (Slice (replicate 26 (Value (JObject [(''name'', JString ''a'')]))))
        \<lparr>remote = (), sent = []\<rparr>
      = (Return (None, Some ErrTooManyItems), \<lparr>remote = (), sent = []\<rparr>)
   \<and> length (replicate 25 (Value (JObject [(''name'', JString ''a'')]))) = 25
   \<and> sent (snd (PutMany typed_json (replies Garbled)
                  (Slice (replicate 25 (Value (JObject [(''name'', JString ''a'')]))))
                  \<lparr>remote = (), sent = []\<rparr>))
      = [\<lparr>Path = ''/items'', Method = ''PUT'',
          Body = ItemsBody (Some (replicate 25 (Some [(''name'', JString ''a'')])))\<rparr>]
   \<and> snd (modifyItem (Value (JObject [(''key'', JNumber 1)]))) \<noteq> None
   \<and> (\<exists>e. PutMany typed_json (replies Garbled) (Slice [Value (JObject [(''key'', JNumber 1)])])
              \<lparr>remote = (), sent = []\<rparr>
            = (Return (None, Some e), \<lparr>remote = (), sent = []\<rparr>) \<and> errors_Is e ErrBadItem)"
  using PutMany_batch_limits
      [of typed_json "replies Garbled" "\<lparr>remote = (), sent = []\<rparr>"
          "replicate 26 (Value (JObject [(''name'', JString ''a'')]))"]
    PutMany_batch_limits
      [of typed_json "replies Garbled" "\<lparr>remote = (), sent = []\<rparr>"
          "replicate 25 (Value (JObject [(''name'', JString ''a'')]))"]
    PutMany_batch_limits
      [of typed_json "replies Garbled" "\<lparr>remote = (), sent = []\<rparr>"
          "[Value (JObject [(''key'', JNumber 1)])]"]
  by (simp add: modifyItem_def removeEmptyKey_def map_index_def)

text \<open>
  C3 as stated fails: 26 items, the last with a numeric \<^verbatim>\<open>key\<close>, give the BadItem error of
  normalization, which is not \<^verbatim>\<open>ErrTooManyItems\<close>.
\<close>

theorem PutMany_bad_item_counterexample:
  "length (replicate 25 (Value (JObject [(''name'', JString ''a'')])) @ [Value (JObject [(''key'', JNumber 1)])]) = 26
   \<and> PutMany typed_json (replies Garbled)
        (Slice (replicate 25 (Value (JObject [(''name'', JString ''a'')])) @ [Value (JObject [(''key'', JNumber 1)])]))
        \<lparr>remote = (), sent = []\<rparr>
      = (Return (None, Some (WrapText ErrBadItem ''Key is not a string'')), \<lparr>remote = (), sent = []\<rparr>)
   \<and> \<not> errors_Is (WrapText ErrBadItem ''Key is not a string'') ErrTooManyItems"
  by code_simp

lemma put_loop_bad:
  "\<exists>it \<in> set items. string_key it = None \<Longrightarrow> put_loop ks items = Panic TypeAssertion"
  by (induction items arbitrary: ks)
    (auto simp: string_key_def split: option.splits jvalue.splits)

lemma put_loop_good:
  "\<forall>it \<in> set items. string_key it \<noteq> None \<Longrightarrow>
   put_loop ks items =
     Return (if items = [] then ks else Some (elems ks @ map (the \<circ> string_key) items))"
proof (induction items arbitrary: ks)
  case Nil
  then show ?case by simp
next
  case (Cons it items)
  then obtain k where k: "string_key it = Some k" by auto
  then have step: "put_loop ks (it # items) = put_loop (go_append ks k) items"
    by (auto simp: string_key_def split: option.splits jvalue.splits)
  from Cons.prems have "\<forall>it \<in> set items. string_key it \<noteq> None" by simp
  from Cons.IH [OF this, of "go_append ks k"] step k show ?case
    by (simp add: go_append_def elems_def)
qed

text \<open>
  C10, as amended. For a \<^verbatim>\<open>Put\<close> of a non-nil item that passes normalization, whose request
  the transport answers with a body that decodes as a put response: when the processed
  items are empty, \<^verbatim>\<open>Put\<close> panics on \<^verbatim>\<open>putKeys[0]\<close>; when some processed item has no string
  under \<^verbatim>\<open>key\<close>, \<^verbatim>\<open>Put\<close> panics on the type assertion; and when the processed items are not
  empty and every one of them has a string under \<^verbatim>\<open>key\<close>, \<^verbatim>\<open>Put\<close> returns the key of the
  first and no error.
\<close>

theorem Put_processed_keys:
  assumes "item \<noteq> GoNil"
    and "modifyItems (Slice [item]) = (ms, None)"
    and "client \<lparr>Path = ''/items'', Method = ''PUT'', Body = ItemsBody ms\<rparr> (remote w) = (Inr obody, s')"
    and "unmarshal_putResponse js obody = Inr pr"
  shows "(elems (processed_items pr) = [] \<longrightarrow> fst (Put js client item w) = Panic IndexOutOfRange)
    \<and> ((\<exists>it \<in> set (elems (processed_items pr)). string_key it = None) \<longrightarrow>
          fst (Put js client item w) = Panic TypeAssertion)
    \<and> (\<forall>it rest k. elems (processed_items pr) = it # rest \<and> string_key it = Some k
          \<and> (\<forall>it' \<in> set rest. string_key it' \<noteq> None) \<longrightarrow>
          fst (Put js client item w) = Return (k, None))"
proof -
  let ?items = "elems (processed_items pr)"
  have P: "fst (Put js client item w) =
      (case put_loop None ?items of
         Panic p \<Rightarrow> Panic p
       | Return ks \<Rightarrow> (case elems ks of [] \<Rightarrow> Panic IndexOutOfRange | k # _ \<Rightarrow> Return (k, None)))"
    using assms
    by (simp add: Put_def put_def request_def split: outcome.splits list.splits)
  have a: "?items = [] \<longrightarrow> fst (Put js client item w) = Panic IndexOutOfRange"
    by (simp add: P elems_def)
  have b: "(\<exists>it \<in> set ?items. string_key it = None) \<longrightarrow> fst (Put js client item w) = Panic TypeAssertion"
    by (simp add: P put_loop_bad)
  have c: "\<forall>it rest k. ?items = it # rest \<and> string_key it = Some k
          \<and> (\<forall>it' \<in> set rest. string_key it' \<noteq> None) \<longrightarrow>
          fst (Put js client item w) = Return (k, None)"
  proof (intro allI impI)
    fix it rest k
    assume h: "?items = it # rest \<and> string_key it = Some k \<and> (\<forall>it' \<in> set rest. string_key it' \<noteq> None)"
    then have "\<forall>x \<in> set ?items. string_key x \<noteq> None" by auto
    from put_loop_good [OF this, of None] h
    have "put_loop None ?items = Return (Some (k # map (the \<circ> string_key) rest))"
      by (simp add: elems_def)
    then show "fst (Put js client item w) = Return (k, None)" by (simp add: P elems_def)
  qed
  from a b c show ?thesis by blast
qed

theorem Put_processed_keys_witness:
  "Value (JObject [(''name'', JString ''a'')]) \<noteq> GoNil
   \<and> modifyItems (Slice [Value (JObject [(''name'', JString ''a'')])])
       = (Some [Some [(''name'', JString ''a'')]], None)
   \<and> fst (Put typed_json
        (replies (PutResponse \<lparr>Processed = Some [(''items'', Some [])],
                               Failed = Some [(''items'', Some [Some [(''name'', JString ''a'')]])]\<rparr>))
        (Value (JObject [(''name'', JString ''a'')])) \<lparr>remote = (), sent = []\<rparr>)
       = Panic IndexOutOfRange
   \<and> fst (Put typed_json
        (replies (PutResponse \<lparr>Processed = Some [(''items'', Some [Some [(''key'', JNumber 5)]])],
                               Failed = None\<rparr>))
        (Value (JObject [(''name'', JString ''a'')])) \<lparr>remote = (), sent = []\<rparr>)
       = Panic TypeAssertion
   \<and> fst (Put typed_json
        (replies (PutResponse \<lparr>Processed = Some [(''items'', Some [Some [(''key'', JString ''abc123'')]])],
                               Failed = None\<rparr>))
        (Value (JObject [(''name'', JString ''a'')])) \<lparr>remote = (), sent = []\<rparr>)
       = Return (''abc123'', None)"
  using
    Put_processed_keys
      [where item = "Value (JObject [(''name'', JString ''a'')])"
         and ms = "Some [Some [(''name'', JString ''a'')]]"
         and client = "replies (PutResponse \<lparr>Processed = Some [(''items'', Some [])],
                               Failed = Some [(''items'', Some [Some [(''name'', JString ''a'')]])]\<rparr>)"
         and w = "\<lparr>remote = (), sent = []\<rparr>" and s' = "()" and js = typed_json
         and obody = "PutResponse \<lparr>Processed = Some [(''items'', Some [])],
                               Failed = Some [(''items'', Some [Some [(''name'', JString ''a'')]])]\<rparr>"
         and pr = "\<lparr>Processed = Some [(''items'', Some [])],
                               Failed = Some [(''items'', Some [Some [(''name'', JString ''a'')]])]\<rparr>"]
    Put_processed_keys
      [where item = "Value (JObject [(''name'', JString ''a'')])"
         and ms = "Some [Some [(''name'', JString ''a'')]]"
         and client = "replies (PutResponse \<lparr>Processed = Some [(''items'', Some [Some [(''key'', JNumber 5)]])],
                               Failed = None\<rparr>)"
         and w = "\<lparr>remote = (), sent = []\<rparr>" and s' = "()" and js = typed_json
         and obody = "PutResponse \<lparr>Processed = Some [(''items'', Some [Some [(''key'', JNumber 5)]])],
                               Failed = None\<rparr>"
         and pr = "\<lparr>Processed = Some [(''items'', Some [Some [(''key'', JNumber 5)]])],
                               Failed = None\<rparr>"]
    Put_processed_keys
      [where item = "Value (JObject [(''name'', JString ''a'')])"
         and ms = "Some [Some [(''name'', JString ''a'')]]"
         and client = "replies (PutResponse \<lparr>Processed = Some [(''items'', Some [Some [(''key'', JString ''abc123'')]])],
                               Failed = None\<rparr>)"
         and w = "\<lparr>remote = (), sent = []\<rparr>" and s' = "()" and js = typed_json
         and obody = "PutResponse \<lparr>Processed = Some [(''items'', Some [Some [(''key'', JString ''abc123'')]])],
                               Failed = None\<rparr>"
         and pr = "\<lparr>Processed = Some [(''items'', Some [Some [(''key'', JString ''abc123'')]])],
                               Failed = None\<rparr>"]
  by (simp add: modifyItems_def removeEmptyKey_def map_index_def elems_def replies_def typed_json_def
      processed_items_def string_key_def)

text \<open>
  C10 as stated fails in its last part: a processed list that holds an item with a string
  key, followed by an item whose key is a number, still makes \<^verbatim>\<open>Put\<close> panic.
\<close>

theorem Put_second_processed_item_counterexample:
  "string_key (Some [(''key'', JString ''a'')]) = Some ''a''
   \<and> processed_items \<lparr>Processed = Some [(''items'', Some [Some [(''key'', JString ''a'')],
                                                             Some [(''key'', JNumber 1)]])],
                        Failed = None\<rparr>
       = Some [Some [(''key'', JString ''a'')], Some [(''key'', JNumber 1)]]
   \<and> Put typed_json
        (replies (PutResponse \<lparr>Processed = Some [(''items'', Some [Some [(''key'', JString ''a'')],
                                                                     Some [(''key'', JNumber 1)]])],
                               Failed = None\<rparr>))
        (Value (JObject [(''name'', JString ''x'')])) \<lparr>remote = (), sent = []\<rparr>
       = (Panic TypeAssertion,
          \<lparr>remote = (),
           sent = [\<lparr>Path = ''/items'', Method = ''PUT'',
                    Body = ItemsBody (Some [Some [(''name'', JString ''x'')]])\<rparr>]\<rparr>)"
  by (simp add: Put_def put_def request_def modifyItems_def removeEmptyKey_def map_index_def elems_def
      replies_def typed_json_def processed_items_def string_key_def go_append_def)

section \<open>Properties of the query and pagination driver\<close>


lemma fetch_result:
  "client \<lparr>Path = ''/query'', Method = ''POST'', Body = FetchBody req\<rparr> (remote w) = (Inr obody, s')
   \<Longrightarrow> unmarshal_fetchResponse js obody = Inr res
   \<Longrightarrow> fetch js client req w
       = ((Some res, None),
          \<lparr>remote = s', sent = sent w @ [\<lparr>Path = ''/query'', Method = ''POST'', Body = FetchBody req\<rparr>]\<rparr>)"
  by (simp add: fetch_def request_def)

lemma fetch_sent:
  "sent (snd (fetch js client req w))
     = sent w @ [\<lparr>Path = ''/query'', Method = ''POST'', Body = FetchBody req\<rparr>]"
  by (simp add: fetch_def request_def split: prod.splits sum.splits)

lemma Fetch_world:
  "snd (snd (Fetch js client scan query dest limit w))
     = snd (fetch js client \<lparr>Query = query, Last = None,
                              Limit = (if limit > 0 then Some limit else None)\<rparr> w)"
proof -
  let ?req = "\<lparr>Query = query, Last = None, Limit = (if limit > 0 then Some limit else None)\<rparr>"
  obtain res err w' where f: "fetch js client ?req w = ((res, err), w')"
    by (cases "fetch js client ?req w") auto
  show ?thesis
  proof (cases err)
    case (Some e)
    with f show ?thesis by (cases res) (simp_all add: Fetch_def)
  next
    case None
    note noerr = this
    show ?thesis
    proof (cases res)
      case None
      with f noerr show ?thesis by (simp add: Fetch_def)
    next
      case (Some r)
      obtain d' serr where s: "scan (items_json (Items r)) dest = (d', serr)"
        by (cases "scan (items_json (Items r)) dest")
      with f noerr Some show ?thesis
        by (cases serr; cases "Paging r") (simp_all add: Fetch_def marshal_Items_def)
    qed
  qed
qed

lemma Fetch_sent:
  "sent (snd (snd (Fetch js client scan query dest limit w)))
     = sent w @ [\<lparr>Path = ''/query'', Method = ''POST'',
                  Body = FetchBody \<lparr>Query = query, Last = None,
                                    Limit = (if limit > 0 then Some limit else None)\<rparr>\<rparr>]"
  by (simp only: Fetch_world fetch_sent)

lemma first_page:
  "query_page \<lparr>Query = None, Last = None, Limit = Some 10\<rparr> collection15
     = \<lparr>Paging = Some \<lparr>Size = 10, Last = Some ''k10''\<rparr>, Items = Some (take 10 collection15)\<rparr>"
  by (simp add: query_page_def collection15_def item_key_def Let_def)

lemma second_page:
  "query_page \<lparr>Query = None, Last = Some ''k10'', Limit = Some 10\<rparr> collection15
     = \<lparr>Paging = Some \<lparr>Size = 5, Last = None\<rparr>, Items = Some (drop 10 collection15)\<rparr>"
  by (simp add: query_page_def collection15_def item_key_def Let_def)

lemma scan_first_page:
  "scan_baseItems (items_json (Some (take 10 collection15))) dest
     = (Some (stored [''k01'', ''k02'', ''k03'', ''k04'', ''k05'', ''k06'', ''k07'', ''k08'', ''k09'', ''k10'']),
        None)"
  by (simp add: scan_baseItems_def items_json_def collection15_def stored_def)

lemma Fetch_first_page:
  "Fetch typed_json query_service scan_baseItems None dest 10 \<lparr>remote = collection15, sent = log\<rparr>
     = (Return (''k10'', None),
        Some (stored [''k01'', ''k02'', ''k03'', ''k04'', ''k05'', ''k06'', ''k07'', ''k08'', ''k09'', ''k10'']),
        \<lparr>remote = collection15,
         sent = log @ [\<lparr>Path = ''/query'', Method = ''POST'',
                  Body = FetchBody \<lparr>Query = None, Last = None, Limit = Some 10\<rparr>\<rparr>]\<rparr>)"
  by (simp add: Fetch_def fetch_def request_def query_service_def typed_json_def marshal_Items_def
      first_page scan_first_page)




text \<open>
  C9, as amended. For a \<^verbatim>\<open>Fetch\<close> whose request the transport answers with a body that
  decodes as a fetch response: without a paging object, and with the items scanned into
  the destination without error, \<^verbatim>\<open>Fetch\<close> panics on the nil pointer; when the scan fails,
  \<^verbatim>\<open>Fetch\<close> returns the empty cursor and a BadDestination error before it looks at the
  paging object; with a paging object \<^verbatim>\<open>Fetch\<close> does not panic.
\<close>

theorem Fetch_nil_paging:
  assumes "client \<lparr>Path = ''/query'', Method = ''POST'',
                   Body = FetchBody \<lparr>Query = query, Last = None,
                                     Limit = (if limit > 0 then Some limit else None)\<rparr>\<rparr> (remote w)
             = (Inr obody, s')"
    and "unmarshal_fetchResponse js obody = Inr res"
  shows "(Paging res = None \<and> snd (scan (items_json (Items res)) dest) = None \<longrightarrow>
            fst (Fetch js client scan query dest limit w) = Panic NilDereference)
    \<and> (\<forall>err. snd (scan (items_json (Items res)) dest) = Some err \<longrightarrow>
            fst (Fetch js client scan query dest limit w)
              = Return ('''', Some (WrapErr ErrBadDestination err)))
    \<and> (Paging res \<noteq> None \<longrightarrow> (\<exists>r. fst (Fetch js client scan query dest limit w) = Return r))"
  using fetch_result [where client = client and w = w, OF assms(1) assms(2)]
  by (auto simp: Fetch_def Let_def marshal_Items_def split: prod.splits option.splits)

theorem Fetch_nil_paging_witness:
  "fst (Fetch typed_json (replies (FetchResponse \<lparr>Paging = None, Items = Some []\<rparr>))
          scan_baseItems None None 10 \<lparr>remote = (), sent = []\<rparr>)
     = Panic NilDereference
   \<and> fst (Fetch typed_json (replies (FetchResponse \<lparr>Paging = Some \<lparr>Size = 0, Last = None\<rparr>, Items = Some []\<rparr>))
          scan_baseItems None None 10 \<lparr>remote = (), sent = []\<rparr>)
     = Return ('''', None)"
  using
    Fetch_nil_paging
      [where client = "replies (FetchResponse \<lparr>Paging = None, Items = Some []\<rparr>)"
         and query = None and limit = 10 and w = "\<lparr>remote = (), sent = []\<rparr>" and s' = "()"
         and js = typed_json and obody = "FetchResponse \<lparr>Paging = None, Items = Some []\<rparr>"
         and res = "\<lparr>Paging = None, Items = Some []\<rparr>" and scan = scan_baseItems and dest = None]
    Fetch_nil_paging
      [where client = "replies (FetchResponse \<lparr>Paging = Some \<lparr>Size = 0, Last = None\<rparr>, Items = Some []\<rparr>)"
         and query = None and limit = 10 and w = "\<lparr>remote = (), sent = []\<rparr>" and s' = "()"
         and js = typed_json
         and obody = "FetchResponse \<lparr>Paging = Some \<lparr>Size = 0, Last = None\<rparr>, Items = Some []\<rparr>"
         and res = "\<lparr>Paging = Some \<lparr>Size = 0, Last = None\<rparr>, Items = Some []\<rparr>"
         and scan = scan_baseItems and dest = None]
  by (simp add: Fetch_def fetch_def request_def replies_def typed_json_def marshal_Items_def
      items_json_def scan_baseItems_def Let_def)

text \<open>
  C9 as stated fails: without a paging object, a destination that rejects the items makes
  \<^verbatim>\<open>Fetch\<close> return an error, not panic.
\<close>

theorem Fetch_nil_paging_bad_destination_counterexample:
  "fst (Fetch typed_json (replies (FetchResponse \<lparr>Paging = None, Items = Some [JNumber 1]\<rparr>))
          scan_baseItems None None 10 \<lparr>remote = (), sent = []\<rparr>)
   = Return ('''', Some (WrapErr ErrBadDestination JSONError))"
  by (simp add: Fetch_def fetch_def request_def replies_def typed_json_def marshal_Items_def
      items_json_def scan_baseItems_def Let_def)

text \<open>
  C4. Every request of \<^verbatim>\<open>Fetch\<close> has no \<^verbatim>\<open>last\<close> field: \<^verbatim>\<open>Fetch\<close> takes no cursor and
  never sets \<^verbatim>\<open>req.Last\<close>. On the collection of 15 items, \<^verbatim>\<open>Fetch(nil, &dest, 10)\<close> returns
  the first ten items and the cursor \<^verbatim>\<open>k10\<close>; the follow-up \<^verbatim>\<open>Fetch\<close>, which can only send
  the same request again, returns the same ten items and the same cursor, not the
  remaining five. The remote side does page: the unexported \<^verbatim>\<open>fetch\<close> with \<^verbatim>\<open>Last\<close> set to
  \<^verbatim>\<open>k10\<close> gets the remaining five items and no last key.
\<close>

theorem Fetch_follow_up_repeats_first_page:
  "sent (snd (snd (Fetch js client scan query dest limit w)))
     = sent w @ [\<lparr>Path = ''/query'', Method = ''POST'',
                  Body = FetchBody \<lparr>Query = query, Last = None,
                                    Limit = (if limit > 0 then Some limit else None)\<rparr>\<rparr>]
   \<and> Fetch typed_json query_service scan_baseItems None None 10 \<lparr>remote = collection15, sent = []\<rparr>
     = (Return (''k10'', None),
        Some (stored [''k01'', ''k02'', ''k03'', ''k04'', ''k05'', ''k06'', ''k07'', ''k08'', ''k09'', ''k10'']),
        \<lparr>remote = collection15,
         sent = [\<lparr>Path = ''/query'', Method = ''POST'',
                  Body = FetchBody \<lparr>Query = None, Last = None, Limit = Some 10\<rparr>\<rparr>]\<rparr>)
   \<and> Fetch typed_json query_service scan_baseItems None
        (Some (stored [''k01'', ''k02'', ''k03'', ''k04'', ''k05'', ''k06'', ''k07'', ''k08'', ''k09'', ''k10'']))
        10
        \<lparr>remote = collection15,
         sent = [\<lparr>Path = ''/query'', Method = ''POST'',
                  Body = FetchBody \<lparr>Query = None, Last = None, Limit = Some 10\<rparr>\<rparr>]\<rparr>
     = (Return (''k10'', None),
        Some (stored [''k01'', ''k02'', ''k03'', ''k04'', ''k05'', ''k06'', ''k07'', ''k08'', ''k09'', ''k10'']),
        \<lparr>remote = collection15,
         sent = [\<lparr>Path = ''/query'', Method = ''POST'',
                  Body = FetchBody \<lparr>Query = None, Last = None, Limit = Some 10\<rparr>\<rparr>,
                 \<lparr>Path = ''/query'', Method = ''POST'',
                  Body = FetchBody \<lparr>Query = None, Last = None, Limit = Some 10\<rparr>\<rparr>]\<rparr>)
   \<and> fst (fetch typed_json query_service \<lparr>Query = None, Last = Some ''k10'', Limit = Some 10\<rparr>
            \<lparr>remote = collection15, sent = []\<rparr>)
     = (Some \<lparr>Paging = Some \<lparr>Size = 5, Last = None\<rparr>, Items = Some (drop 10 collection15)\<rparr>, None)"
proof (intro conjI)
  show "sent (snd (snd (Fetch js client scan query dest limit w)))
     = sent w @ [\<lparr>Path = ''/query'', Method = ''POST'',
                  Body = FetchBody \<lparr>Query = query, Last = None,
                                    Limit = (if limit > 0 then Some limit else None)\<rparr>\<rparr>]"
    by (rule Fetch_sent)
next
  show "fst (fetch typed_json query_service \<lparr>Query = None, Last = Some ''k10'', Limit = Some 10\<rparr>
            \<lparr>remote = collection15, sent = []\<rparr>)
     = (Some \<lparr>Paging = Some \<lparr>Size = 5, Last = None\<rparr>, Items = Some (drop 10 collection15)\<rparr>, None)"
    by (simp add: fetch_def request_def query_service_def typed_json_def second_page)
next
  show "Fetch typed_json query_service scan_baseItems None None 10 \<lparr>remote = collection15, sent = []\<rparr>
     = (Return (''k10'', None),
        Some (stored [''k01'', ''k02'', ''k03'', ''k04'', ''k05'', ''k06'', ''k07'', ''k08'', ''k09'', ''k10'']),
        \<lparr>remote = collection15,
         sent = [\<lparr>Path = ''/query'', Method = ''POST'',
                  Body = FetchBody \<lparr>Query = None, Last = None, Limit = Some 10\<rparr>\<rparr>]\<rparr>)"
    using Fetch_first_page [of None "[]"] by simp
next
  show "Fetch typed_json query_service scan_baseItems None
        (Some (stored [''k01'', ''k02'', ''k03'', ''k04'', ''k05'', ''k06'', ''k07'', ''k08'', ''k09'', ''k10'']))
        10
        \<lparr>remote = collection15,
         sent = [\<lparr>Path = ''/query'', Method = ''POST'',
                  Body = FetchBody \<lparr>Query = None, Last = None, Limit = Some 10\<rparr>\<rparr>]\<rparr>
     = (Return (''k10'', None),
        Some (stored [''k01'', ''k02'', ''k03'', ''k04'', ''k05'', ''k06'', ''k07'', ''k08'', ''k09'', ''k10'']),
        \<lparr>remote = collection15,
         sent = [\<lparr>Path = ''/query'', Method = ''POST'',
                  Body = FetchBody \<lparr>Query = None, Last = None, Limit = Some 10\<rparr>\<rparr>,
                 \<lparr>Path = ''/query'', Method = ''POST'',
                  Body = FetchBody \<lparr>Query = None, Last = None, Limit = Some 10\<rparr>\<rparr>]\<rparr>)"
    using Fetch_first_page
      [of "Some (stored [''k01'', ''k02'', ''k03'', ''k04'', ''k05'', ''k06'', ''k07'', ''k08'', ''k09'', ''k10''])"
          "[\<lparr>Path = ''/query'', Method = ''POST'',
             Body = FetchBody \<lparr>Query = None, Last = None, Limit = Some 10\<rparr>\<rparr>]"]
    by simp
qed

end
